theory Spec2Isabelle
  imports Complex_Main "HOL-Library.Word"
begin

section \<open>Values exchanged with the platform\<close>

text \<open>
  A decoded JSON document, as Python's \<open>json\<close> module hands it to the client: \<open>None\<close>,
  \<open>bool\<close>, \<open>int\<close>, \<open>float\<close>, \<open>str\<close>, \<open>list\<close> and \<open>dict\<close>. A \<open>dict\<close> is an association list
  read with \<open>map_of\<close>. Python's \<open>None\<close> result of a call is \<open>JNull\<close>, a \<open>str\<close> result is \<open>JStr\<close>.
\<close>

datatype json =
    JNull
  | JBool bool
  | JInt int
  | JFloat real
  | JStr string
  | JList "json list"
  | JObject "(string \<times> json) list"

text \<open>
  What the client reads of an \<open>httpx.Response\<close>. Decoding is the HTTP library's work, so its
  outcome is part of the response: \<open>json_body\<close> is the value of \<open>response.json()\<close> and is \<open>None\<close>
  when that call raises; \<open>retry_after_hint\<close> is the \<open>retry-after\<close> header read with \<open>int\<close>, and
  is \<open>None\<close> when the header is absent or is not an integer.
\<close>

record response =
  status_code :: int
  json_body :: "json option"
  response_text :: string
  retry_after_hint :: "int option"

text \<open>\<open>httpx.Response.is_success\<close>: the status is a 2xx.\<close>

definition is_success :: "response \<Rightarrow> bool" where
  "is_success r = (200 \<le> status_code r \<and> status_code r \<le> 299)"

section \<open>Exceptions (exceptions.py)\<close>

text \<open>
  The exceptions that travel through \<open>AionClient.request\<close>: the three kinds the transport call
  raises (\<open>TransportFailure\<close> is any exception of the HTTP library other than a timeout or a
  connect error), the SDK's own classes, and the two built-in errors the response handler can
  run into. \<open>AionError\<close> keeps its cause (\<open>raise ... from e\<close>); \<open>AionAPIError\<close> keeps its status
  code and \<open>AionRateLimitError\<close> its retry-after hint. Message texts and the \<open>details\<close>
  dictionary take no part in control flow and are left out.
\<close>

datatype exn =
    TimeoutException
  | ConnectError
  | TransportFailure
  | AionError exn
  | AionTimeoutError
  | AionConnectionError
  | AionAPIError int
  | AionAuthenticationError
  | AionAuthorizationError
  | AionNotFoundError
  | AionValidationError
  | AionRateLimitError "int option"
  | TypeError
  | UnboundLocalError

text \<open>\<open>status_code\<close> of the \<open>AionAPIError\<close> family; the other classes have no such attribute.\<close>

fun exn_status_code :: "exn \<Rightarrow> int option" where
  "exn_status_code (AionAPIError n) = Some n"
| "exn_status_code AionAuthenticationError = Some 401"
| "exn_status_code AionAuthorizationError = Some 403"
| "exn_status_code AionNotFoundError = Some 404"
| "exn_status_code AionValidationError = Some 400"
| "exn_status_code (AionRateLimitError h) = Some 429"
| "exn_status_code e = None"

definition is_server_error :: "int \<Rightarrow> bool" where
  "is_server_error n = (500 \<le> n \<and> n < 600)"

definition is_client_error :: "int \<Rightarrow> bool" where
  "is_client_error n = (400 \<le> n \<and> n < 500)"

text \<open>
  The \<open>is_retryable\<close> property: overridden to \<open>True\<close> by \<open>AionRateLimitError\<close>,
  \<open>AionConnectionError\<close> and \<open>AionTimeoutError\<close>, inherited from \<open>AionAPIError\<close> by its other
  subclasses, absent (\<open>None\<close>) elsewhere.
\<close>

fun is_retryable :: "exn \<Rightarrow> bool option" where
  "is_retryable (AionRateLimitError h) = Some True"
| "is_retryable AionConnectionError = Some True"
| "is_retryable AionTimeoutError = Some True"
| "is_retryable e =
     (case exn_status_code e of
        None \<Rightarrow> None
      | Some n \<Rightarrow> Some (is_server_error n \<or> n = 429))"

section \<open>The response envelope (models.py, ApiResponse)\<close>

record ApiResponse =
  api_data :: json
  api_success :: bool
  api_message :: "string option"

definition ascii_lower :: "char \<Rightarrow> char" where
  "ascii_lower ch =
     (let n = (of_char ch :: nat) in if 65 \<le> n \<and> n \<le> 90 then char_of (n + 32) else ch)"

text \<open>
  Field validation as pydantic does it for \<open>model_validate\<close> on decoded JSON (lax mode):
  a \<open>bool\<close> field takes a boolean, the integers and floats 0 and 1, and the strings
  0/off/f/false/n/no and 1/on/t/true/y/yes in any letter case; an \<open>Optional[str]\<close> field takes
  \<open>None\<close> or a string. Anything else is a validation error (\<open>None\<close> here).
\<close>

fun validate_bool :: "json \<Rightarrow> bool option" where
  "validate_bool (JBool b) = Some b"
| "validate_bool (JInt i) = (if i = 0 then Some False else if i = 1 then Some True else None)"
| "validate_bool (JFloat x) = (if x = 0 then Some False else if x = 1 then Some True else None)"
| "validate_bool (JStr s) =
     (let l = map ascii_lower s in
      if l \<in> set [''0'', ''off'', ''f'', ''false'', ''n'', ''no''] then Some False
      else if l \<in> set [''1'', ''on'', ''t'', ''true'', ''y'', ''yes''] then Some True
      else None)"
| "validate_bool v = None"

fun validate_optional_str :: "json \<Rightarrow> string option option" where
  "validate_optional_str JNull = Some None"
| "validate_optional_str (JStr s) = Some (Some s)"
| "validate_optional_str v = None"

text \<open>
  \<open>ApiResponse.model_validate(data)\<close> for a \<open>dict\<close>: \<open>data\<close> is required and of any type,
  \<open>success\<close> defaults to \<open>True\<close>, \<open>message\<close> to \<open>None\<close>; other keys are ignored. \<open>None\<close> stands
  for the \<open>ValidationError\<close>.
\<close>

definition ApiResponse_model_validate :: "(string \<times> json) list \<Rightarrow> ApiResponse option" where
  "ApiResponse_model_validate kvs =
     (case map_of kvs ''data'' of
        None \<Rightarrow> None
      | Some d \<Rightarrow>
          (case (case map_of kvs ''success'' of None \<Rightarrow> Some True | Some v \<Rightarrow> validate_bool v) of
             None \<Rightarrow> None
           | Some s \<Rightarrow>
               (case (case map_of kvs ''message'' of
                        None \<Rightarrow> Some None
                      | Some v \<Rightarrow> validate_optional_str v) of
                  None \<Rightarrow> None
                | Some m \<Rightarrow> Some \<lparr>api_data = d, api_success = s, api_message = m\<rparr>)))"

section \<open>Response handling and the retry loop (client.py)\<close>

text \<open>
  \<open>AionClient._handle_response\<close>. On a 2xx: a decoding failure or an envelope that does not
  validate returns the raw text; an envelope with \<open>success\<close> false raises \<open>AionAPIError\<close>; a body
  without a \<open>data\<close> key is returned as decoded. Otherwise the status picks the exception.
  \<open>AionValidationError\<close> is constructed with a \<open>details\<close> keyword its constructor does not have,
  so the 400 branch ends in \<open>TypeError\<close>; the last branch reads \<open>error_data\<close>, which is unbound
  when \<open>response.json()\<close> raised, so it ends in \<open>UnboundLocalError\<close> then.
\<close>

definition handle_response :: "response \<Rightarrow> exn + json" where
  "handle_response r =
     (if is_success r then
        (case json_body r of
           None \<Rightarrow> Inr (JStr (response_text r))
         | Some d \<Rightarrow>
             (case d of
                JObject kvs \<Rightarrow>
                  (if map_of kvs ''data'' \<noteq> None then
                     (case ApiResponse_model_validate kvs of
                        None \<Rightarrow> Inr (JStr (response_text r))
                      | Some a \<Rightarrow>
                          if api_success a then Inr (api_data a)
                          else Inl (AionAPIError (status_code r)))
                   else Inr d)
              | _ \<Rightarrow> Inr d))
      else if status_code r = 401 then Inl AionAuthenticationError
      else if status_code r = 403 then Inl AionAuthorizationError
      else if status_code r = 404 then Inl AionNotFoundError
      else if status_code r = 400 then Inl TypeError
      else if status_code r = 429 then Inl (AionRateLimitError (retry_after_hint r))
      else (case json_body r of
              None \<Rightarrow> Inl UnboundLocalError
            | Some d \<Rightarrow> Inl (AionAPIError (status_code r))))"

text \<open>What one call of the transport does: it hands back a response or raises.\<close>

datatype transport = Responds response | Raises exn

text \<open>
  The body of the \<open>try\<close> in \<open>AionClient.request\<close>: the transport call, then
  \<open>_handle_response\<close> on its response.
\<close>

definition attempt_once :: "transport \<Rightarrow> exn + json" where
  "attempt_once t = (case t of Raises e \<Rightarrow> Inl e | Responds r \<Rightarrow> handle_response r)"

text \<open>
  The loop \<open>for attempt in range(max_retries + 1)\<close> over the attempts still to run. \<open>send k\<close>
  is what the transport does on the attempt numbered \<open>k\<close>. The result is the value returned or
  the exception raised, with the \<open>asyncio.sleep\<close> delays (in seconds) in the order they were
  slept. The three \<open>except\<close> clauses are tried in the source's order; the last one,
  \<open>except Exception\<close>, takes every exception the first two do not, those raised by
  \<open>_handle_response\<close> included. A loop that runs out returns \<open>None\<close>.
\<close>

fun request_loop :: "int \<Rightarrow> (nat \<Rightarrow> transport) \<Rightarrow> nat list \<Rightarrow> (exn + json) \<times> nat list" where
  "request_loop max_retries send [] = (Inr JNull, [])"
| "request_loop max_retries send (attempt # rest) =
     (case attempt_once (send attempt) of
        Inr v \<Rightarrow> (Inr v, [])
      | Inl e \<Rightarrow>
          if e = TimeoutException then
            (if int attempt = max_retries then (Inl AionTimeoutError, [])
             else (case request_loop max_retries send rest of
                     (res, ds) \<Rightarrow> (res, 2 ^ attempt # ds)))
          else if e = ConnectError then
            (if int attempt = max_retries then (Inl AionConnectionError, [])
             else (case request_loop max_retries send rest of
                     (res, ds) \<Rightarrow> (res, 2 ^ attempt # ds)))
          else
            (if int attempt = max_retries then (Inl (AionError e), [])
             else (case request_loop max_retries send rest of
                     (res, ds) \<Rightarrow> (res, 2 ^ attempt # ds))))"

definition request :: "int \<Rightarrow> (nat \<Rightarrow> transport) \<Rightarrow> (exn + json) \<times> nat list" where
  "request max_retries send = request_loop max_retries send [0..<nat (max_retries + 1)]"

section \<open>Progress events (models.py)\<close>

type_synonym uuid = "128 word"

datatype ProgressEventType =
    SESSION_STARTED
  | TASK_STARTED
  | TASK_PROGRESS
  | TASK_COMPLETED
  | TASK_FAILED
  | SESSION_COMPLETED
  | SESSION_FAILED
  | METRICS_UPDATE
  | LOG_MESSAGE

text \<open>The timestamp is kept as the text it arrived as.\<close>

record ProgressEvent =
  session_id :: uuid
  event_type :: ProgressEventType
  timestamp :: string
  data :: "(string \<times> json) list"

section \<open>The WebSocket client (websocket.py)\<close>

text \<open>
  The protocol object behind \<open>_websocket\<close> is open or closed (its \<open>closed\<close> attribute). The
  frames the client writes are the two control frames of \<open>subscribe\<close> and \<open>unsubscribe\<close>.
\<close>

datatype socket = Open | Closed

datatype control_frame = Subscribe uuid | Unsubscribe uuid

datatype ws_exn = AionWebSocketError string | ConnectionClosed | AttributeError

text \<open>
  The task that \<open>connect\<close> starts with \<open>asyncio.create_task(self._message_handler())\<close>: not yet
  started, iterating over the socket, returned, or ended by the exception it raised.
\<close>

datatype task = NotStarted | Running | Finished | Failed ws_exn

text \<open>
  What the message handler meets while it iterates over the socket. A text frame carries the
  outcome of \<open>ProgressEvent.model_validate(json.loads(message))\<close>: the event, or \<open>None\<close> when
  either call raises \<open>JSONDecodeError\<close> or \<open>ValueError\<close>. The iteration stops without an
  exception when the connection closes normally (\<open>CloseOK\<close>), with \<open>ConnectionClosed\<close> when it
  closes with an error (\<open>CloseError\<close>), or with some other exception (\<open>LoopFailure\<close>, with its
  text).
\<close>

datatype inbound =
    TextFrame "ProgressEvent option"
  | BinaryFrame
  | CloseOK
  | CloseError
  | LoopFailure string

datatype handshake = HandshakeOK | HandshakeFailed string

text \<open>
  The client object: the scheme and network location of \<open>urlparse(base_url)\<close>, the API key, and
  the four attributes \<open>_websocket\<close>, \<open>_subscriptions\<close>, \<open>_event_queue\<close>, \<open>_running\<close>; with them the
  state of the handler task and the control frames written to the socket so far, oldest first.
\<close>

record ws_client =
  scheme :: string
  netloc :: string
  api_key :: string
  websocket :: "socket option"
  subscriptions :: "uuid set"
  event_queue :: "ProgressEvent list"
  running :: bool
  handler_task :: task
  sent :: "control_frame list"

definition build_ws_url :: "ws_client \<Rightarrow> ws_exn + string" where
  "build_ws_url c =
     (if scheme c = ''http'' then
        Inr (''ws'' @ ''://'' @ netloc c @ ''/ws/progress'' @ ''?'' @ ''api_key='' @ api_key c)
      else if scheme c = ''https'' then
        Inr (''wss'' @ ''://'' @ netloc c @ ''/ws/progress'' @ ''?'' @ ''api_key='' @ api_key c)
      else Inl (AionWebSocketError (''Unsupported scheme: '' @ scheme c)))"

text \<open>
  \<open>connect\<close>. \<open>dial url\<close> is what \<open>websockets.connect\<close> does for the URL. A result \<open>Some e\<close> is
  the exception raised, \<open>None\<close> a normal return.
\<close>

definition connect :: "(string \<Rightarrow> handshake) \<Rightarrow> ws_client \<Rightarrow> ws_exn option \<times> ws_client" where
  "connect dial c =
     (if websocket c = Some Open then (None, c)
      else
        (case build_ws_url c of
           Inl e \<Rightarrow> (Some e, c)
         | Inr ws_url \<Rightarrow>
             (case dial ws_url of
                HandshakeOK \<Rightarrow>
                  (None, c\<lparr>websocket := Some Open, running := True, handler_task := Running\<rparr>)
              | HandshakeFailed m \<Rightarrow>
                  (Some (AionWebSocketError (''Failed to connect to WebSocket: '' @ m)), c))))"

text \<open>
  \<open>disconnect\<close>: the flag is cleared, an open socket is closed (which ends the handler's
  iteration), and the subscription set is emptied.
\<close>

definition disconnect :: "ws_client \<Rightarrow> ws_client" where
  "disconnect c =
     (let c1 = c\<lparr>running := False\<rparr>;
          c2 = (if websocket c1 = Some Open then
                  c1\<lparr>websocket := Some Closed,
                     handler_task := (if handler_task c1 = Running then Finished
                                      else handler_task c1)\<rparr>
                else c1)
      in c2\<lparr>subscriptions := {}\<rparr>)"

text \<open>\<open>self._websocket.send(...)\<close>: a closed socket raises \<open>ConnectionClosed\<close>.\<close>

definition ws_send :: "ws_client \<Rightarrow> control_frame \<Rightarrow> ws_exn option \<times> ws_client" where
  "ws_send c f =
     (case websocket c of
        None \<Rightarrow> (Some AttributeError, c)
      | Some Closed \<Rightarrow> (Some ConnectionClosed, c)
      | Some Open \<Rightarrow> (None, c\<lparr>sent := sent c @ [f]\<rparr>))"

definition subscribe ::
  "(string \<Rightarrow> handshake) \<Rightarrow> ws_client \<Rightarrow> uuid \<Rightarrow> ws_exn option \<times> ws_client" where
  "subscribe dial c sid =
     (case (if websocket c = None then connect dial c else (None, c)) of
        (Some e, c1) \<Rightarrow> (Some e, c1)
      | (None, c1) \<Rightarrow>
          (if sid \<notin> subscriptions c1 then
             (case ws_send c1 (Subscribe sid) of
                (Some e, c2) \<Rightarrow> (Some e, c2)
              | (None, c2) \<Rightarrow> (None, c2\<lparr>subscriptions := insert sid (subscriptions c2)\<rparr>))
           else (None, c1)))"

definition unsubscribe :: "ws_client \<Rightarrow> uuid \<Rightarrow> ws_exn option \<times> ws_client" where
  "unsubscribe c sid =
     (if websocket c = None then (None, c)
      else if sid \<in> subscriptions c then
        (case ws_send c (Unsubscribe sid) of
           (Some e, c1) \<Rightarrow> (Some e, c1)
         | (None, c1) \<Rightarrow> (None, c1\<lparr>subscriptions := subscriptions c1 - {sid}\<rparr>))
      else (None, c))"

text \<open>
  \<open>_message_handler\<close>, run over the inbound items that reach it. Every text frame that decodes
  to an event is put on the one queue of the client; no use is made of the subscription set.
  Invalid and binary frames are skipped. A normal end of the iteration leaves \<open>_running\<close> as it
  is; \<open>ConnectionClosed\<close> and any other exception clear it, and touch nothing else of the
  client. A handler that is not running takes nothing. The guard at the head of the
  function, \<open>if not self._websocket: return\<close>, never fires: \<open>connect\<close> sets \<open>_websocket\<close>
  before it starts the task.
\<close>

fun message_handler :: "ws_client \<Rightarrow> inbound list \<Rightarrow> ws_client" where
  "message_handler c [] = c"
| "message_handler c (m # ms) =
     (if handler_task c \<noteq> Running then c
      else
        (case m of
           TextFrame (Some e) \<Rightarrow> message_handler (c\<lparr>event_queue := event_queue c @ [e]\<rparr>) ms
         | TextFrame None \<Rightarrow> message_handler c ms
         | BinaryFrame \<Rightarrow> message_handler c ms
         | CloseOK \<Rightarrow> c\<lparr>websocket := Some Closed, handler_task := Finished\<rparr>
         | CloseError \<Rightarrow>
             c\<lparr>websocket := Some Closed, running := False, handler_task := Finished\<rparr>
         | LoopFailure txt \<Rightarrow>
             c\<lparr>running := False,
               handler_task := Failed (AionWebSocketError (''Message handler error: '' @ txt))\<rparr>))"

text \<open>
  The generator \<open>events\<close>. Each \<open>asyncio.wait_for(self._event_queue.get(), timeout=1.0)\<close> is a
  point where the handler runs; \<open>ticks\<close> lists, for the waits still to come, what reaches the
  handler during each one, and after the last of them nothing arrives any more. The result
  is the trace of the generator: every event yielded, with the client and the remaining ticks
  as they stand at that yield, and how the generator ends: \<open>Ended\<close> when the loop condition
  fails, \<open>Blocked\<close> when it waits on an empty queue for ever (a timeout every second, and
  \<open>_running\<close> still set).
\<close>

datatype ending = Ended ws_client "inbound list list" | Blocked

function events ::
  "ws_client \<Rightarrow> inbound list list
     \<Rightarrow> (ProgressEvent \<times> ws_client \<times> inbound list list) list \<times> ending" where
  "events c ticks =
     (if running c \<or> event_queue c \<noteq> [] then
        (case ticks of
           [] \<Rightarrow>
             (case event_queue c of
                [] \<Rightarrow> ([], Blocked)
              | e # q \<Rightarrow>
                  (case events (c\<lparr>event_queue := q\<rparr>) [] of
                     (ys, fin) \<Rightarrow> ((e, c\<lparr>event_queue := q\<rparr>, []) # ys, fin)))
         | t # rest \<Rightarrow>
             (case event_queue (message_handler c t) of
                [] \<Rightarrow> events (message_handler c t) rest
              | e # q \<Rightarrow>
                  (case events ((message_handler c t)\<lparr>event_queue := q\<rparr>) rest of
                     (ys, fin) \<Rightarrow>
                       ((e, (message_handler c t)\<lparr>event_queue := q\<rparr>, rest) # ys, fin))))
      else ([], Ended c ticks))"
  by pat_completeness auto
termination
  by (relation "measures [\<lambda>(c, ticks). length ticks, \<lambda>(c, ticks). length (event_queue c)]") auto

text \<open>
  \<open>session_events\<close>: the subscription first (its exception ends the generator), then the
  events of \<open>events\<close> whose session id is the one asked for.
\<close>

definition session_events ::
  "(string \<Rightarrow> handshake) \<Rightarrow> ws_client \<Rightarrow> uuid \<Rightarrow> inbound list list
     \<Rightarrow> (ws_exn \<times> ws_client)
         + ((ProgressEvent \<times> ws_client \<times> inbound list list) list \<times> ending)" where
  "session_events dial c sid ticks =
     (case subscribe dial c sid of
        (Some e, c1) \<Rightarrow> Inl (e, c1)
      | (None, c1) \<Rightarrow>
          (case events c1 ticks of
             (ys, fin) \<Rightarrow> Inr (filter (\<lambda>y. session_id (fst y) = sid) ys, fin)))"

definition completion_types :: "ProgressEventType list" where
  "completion_types = [SESSION_COMPLETED, SESSION_FAILED]"

text \<open>
  \<open>wait_for_completion\<close>: the first event of \<open>session_events\<close> with a completion type is
  returned, with the client as it stands when that event is taken; a generator that ends
  first gives \<open>AionWebSocketError\<close>. \<open>None\<close> is a call that never returns.
\<close>

definition wait_for_completion ::
  "(string \<Rightarrow> handshake) \<Rightarrow> ws_client \<Rightarrow> uuid \<Rightarrow> inbound list list
     \<Rightarrow> ((ws_exn + ProgressEvent) \<times> ws_client \<times> inbound list list) option" where
  "wait_for_completion dial c sid ticks =
     (case session_events dial c sid ticks of
        Inl (e, c1) \<Rightarrow> Some (Inl e, c1, ticks)
      | Inr (ys, fin) \<Rightarrow>
          (case find (\<lambda>y. event_type (fst y) \<in> set completion_types) ys of
             Some (e, c2, rest) \<Rightarrow> Some (Inr e, c2, rest)
           | None \<Rightarrow>
               (case fin of
                  Ended c2 rest \<Rightarrow>
                    Some (Inl (AionWebSocketError ''Session completion event not received''),
                          c2, rest)
                | Blocked \<Rightarrow> None)))"

text \<open>
  The events delivered to the client from a state on: the queue as it would stand after the
  handler has taken everything the ticks bring, had nothing been taken from it meanwhile.
\<close>

definition delivered :: "ws_client \<Rightarrow> inbound list list \<Rightarrow> ProgressEvent list" where
  "delivered c ticks = event_queue (message_handler c (concat ticks))"

text \<open>An event that ends the wait for a session: its session id, and a completion type.\<close>

definition terminal_for :: "uuid \<Rightarrow> ProgressEvent \<Rightarrow> bool" where
  "terminal_for sid e = (session_id e = sid \<and> event_type e \<in> set completion_types)"

text \<open>
  In every state the client reaches, a running handler task goes with a set \<open>_running\<close> flag:
  \<open>connect\<close> sets both, and whatever clears the flag ends the task.
\<close>

definition handler_implies_running :: "ws_client \<Rightarrow> bool" where
  "handler_implies_running c = (handler_task c = Running \<longrightarrow> running c)"

section \<open>The SSE listener (progress.py)\<close>

text \<open>
  What \<open>subscribe_sse\<close> reads of the streaming response: the status, and the lines of
  \<open>aiter_lines()\<close> up to the end of the stream.
\<close>

record stream_response =
  stream_status :: int
  stream_lines :: "string list"

datatype sse_exn = HTTPStatusError

text \<open>
  \<open>ProgressAPI.subscribe_sse\<close>: \<open>raise_for_status\<close> raises on a status that is not a 2xx; then
  every line that starts with \<open>data: \<close> is decoded and validated without that prefix, and
  yielded when that succeeds. \<open>parse s\<close> is the outcome of
  \<open>ProgressEvent.model_validate(json.loads(s))\<close>, \<open>None\<close> when either call raises
  \<open>JSONDecodeError\<close> or \<open>ValueError\<close>. The result lists the events yielded until the stream ends.
\<close>

definition subscribe_sse ::
  "(string \<Rightarrow> ProgressEvent option) \<Rightarrow> stream_response \<Rightarrow> sse_exn + ProgressEvent list" where
  "subscribe_sse parse r =
     (if \<not> (200 \<le> stream_status r \<and> stream_status r \<le> 299) then Inl HTTPStatusError
      else Inr (List.map_filter
                  (\<lambda>line. if take 6 line = ''data: '' then parse (drop 6 line) else None)
                  (stream_lines r)))"

text \<open>\<open>ProgressListener.events\<close> passes on what \<open>subscribe_sse\<close> yields.\<close>

definition ProgressListener_events ::
  "(string \<Rightarrow> ProgressEvent option) \<Rightarrow> stream_response \<Rightarrow> sse_exn + ProgressEvent list" where
  "ProgressListener_events parse r = subscribe_sse parse r"

text \<open>
  \<open>ProgressListener.wait_for_completion\<close>: the first event with a completion type is returned
  (\<open>Some\<close>); when the iteration ends without one the function falls off its end and returns
  Python's \<open>None\<close>.
\<close>

definition ProgressListener_wait_for_completion ::
  "(string \<Rightarrow> ProgressEvent option) \<Rightarrow> stream_response \<Rightarrow> sse_exn + ProgressEvent option" where
  "ProgressListener_wait_for_completion parse r =
     (case ProgressListener_events parse r of
        Inl e \<Rightarrow> Inl e
      | Inr es \<Rightarrow> Inr (find (\<lambda>e. event_type e \<in> {SESSION_COMPLETED, SESSION_FAILED}) es))"

section \<open>Sample clients, events and streams\<close>

definition progress_event :: "uuid \<Rightarrow> ProgressEventType \<Rightarrow> ProgressEvent" where
  "progress_event sid ty =
     \<lparr>session_id = sid, event_type = ty, timestamp = ''2024-01-01T00:00:00'', data = []\<rparr>"

text \<open>A connected client with the given subscriptions and an empty queue.\<close>

definition open_client :: "uuid set \<Rightarrow> ws_client" where
  "open_client subs =
     \<lparr>scheme = ''https'', netloc = ''api.aion.dev'', api_key = ''key'',
      websocket = Some Open, subscriptions = subs, event_queue = [], running = True,
      handler_task = Running, sent = []\<rparr>"

text \<open>A parser for sample streams: \<open>progress\<close> and \<open>completed\<close> are events of session 1.\<close>

definition sample_parse :: "string \<Rightarrow> ProgressEvent option" where
  "sample_parse s =
     (if s = ''progress'' then Some (progress_event 1 TASK_PROGRESS)
      else if s = ''completed'' then Some (progress_event 1 SESSION_COMPLETED)
      else None)"

definition sample_stream :: stream_response where
  "sample_stream =
     \<lparr>stream_status = 200,
      stream_lines = [''data: progress'', '': keep-alive'', ''data: {broken'', ''data: progress'']\<rparr>"

text \<open>A handshake that always succeeds, and two schedules of inbound items.\<close>

definition dial_ok :: "string \<Rightarrow> handshake" where
  "dial_ok url = HandshakeOK"

definition completion_ticks :: "inbound list list" where
  "completion_ticks =
     [[TextFrame (Some (progress_event 1 TASK_PROGRESS))],
      [TextFrame None, TextFrame (Some (progress_event 2 SESSION_COMPLETED)),
       TextFrame (Some (progress_event 1 SESSION_COMPLETED)),
       TextFrame (Some (progress_event 1 LOG_MESSAGE))]]"

definition closing_ticks :: "inbound list list" where
  "closing_ticks = [[TextFrame (Some (progress_event 1 TASK_PROGRESS)), CloseError]]"

section \<open>Sample responses and transports\<close>

definition not_found_response :: response where
  "not_found_response =
     \<lparr>status_code = 404, json_body = None, response_text = ''gone'', retry_after_hint = None\<rparr>"

definition bad_request_response :: response where
  "bad_request_response =
     \<lparr>status_code = 400,
      json_body = Some (JObject [(''error'', JStr ''invalid''), (''message'', JStr ''name is empty'')]),
      response_text = ''{error: invalid, message: name is empty}'',
      retry_after_hint = None\<rparr>"

definition envelope_response :: "bool \<Rightarrow> response" where
  "envelope_response ok =
     \<lparr>status_code = 200,
      json_body = Some (JObject [(''data'', JObject [(''x'', JInt 1)]), (''success'', JBool ok)]),
      response_text = ''{data: {x: 1}, success: ...}'',
      retry_after_hint = None\<rparr>"

definition raw_response :: response where
  "raw_response =
     \<lparr>status_code = 200, json_body = Some (JObject [(''x'', JInt 1)]),
      response_text = ''{x: 1}'', retry_after_hint = None\<rparr>"

definition html_response :: response where
  "html_response =
     \<lparr>status_code = 200, json_body = None, response_text = ''<html>ok</html>'',
      retry_after_hint = None\<rparr>"

text \<open>A transport that times out on its first \<open>n\<close> calls and answers \<open>r\<close> from then on.\<close>

definition timeouts_then :: "nat \<Rightarrow> response \<Rightarrow> nat \<Rightarrow> transport" where
  "timeouts_then n r k = (if k < n then Raises TimeoutException else Responds r)"

declare events.simps [simp del]

section \<open>The request executor: retries and classification\<close>

lemma attempts_of_three: "[0..<nat (3 + 1)] = [0, 1, 2, 3]"
  by (simp add: upt_rec)

text \<open>
  When every attempt before attempt \<open>k\<close> raises and attempt \<open>k\<close>, still within the limit, yields a
  value, the request returns that value after the delays \<open>2 ^ 0\<close>, ..., \<open>2 ^ (k - 1)\<close>.
\<close>

lemma request_loop_reaches:
  assumes "\<forall>j. i \<le> j \<and> j < k \<longrightarrow> (\<exists>e. attempt_once (send j) = Inl e)"
    and "attempt_once (send k) = Inr v"
    and "i \<le> k" and "k < n" and "int n = max_retries + 1"
  shows "request_loop max_retries send [i..<n] = (Inr v, map (\<lambda>j. 2 ^ j) [i..<k])"
  using assms
proof (induction "k - i" arbitrary: i)
  case 0
  then have "i = k" by simp
  with "0.prems" show ?case by (simp add: upt_conv_Cons)
next
  case (Suc d)
  then have lt: "i < k" by simp
  with Suc.prems obtain e where e: "attempt_once (send i) = Inl e" by blast
  from lt Suc.prems have ne: "int i \<noteq> max_retries" by linarith
  have ih: "request_loop max_retries send [Suc i..<n] = (Inr v, map (\<lambda>j. 2 ^ j) [Suc i..<k])"
  proof (rule Suc.hyps(1))
    show "d = k - Suc i" using Suc.hyps(2) by simp
    show "\<forall>j. Suc i \<le> j \<and> j < k \<longrightarrow> (\<exists>e. attempt_once (send j) = Inl e)"
      using Suc.prems(1) by simp
    show "attempt_once (send k) = Inr v" by (rule Suc.prems(2))
    show "Suc i \<le> k" using lt by simp
    show "k < n" by (rule Suc.prems(4))
    show "int n = max_retries + 1" by (rule Suc.prems(5))
  qed
  from lt Suc.prems(4) have "[i..<n] = i # [Suc i..<n]" and "[i..<k] = i # [Suc i..<k]"
    by (simp_all add: upt_conv_Cons)
  with e ne ih show ?case by simp
qed

lemma request_reaches:
  assumes "\<forall>j<k. \<exists>e. attempt_once (send j) = Inl e"
    and "attempt_once (send k) = Inr v" and "int k \<le> max_retries"
  shows "request max_retries send = (Inr v, map (\<lambda>j. 2 ^ j) [0..<k])"
  unfolding request_def
  using assms by (intro request_loop_reaches) auto

text \<open>
  The rows of the status table that the handler gets right, with the \<open>is_retryable\<close> flag of the
  exception raised: 401, 403, 404 and 429 whatever the body, and every other non-2xx status
  except 400 when the body decodes as JSON.
\<close>

lemma classification_table:
  "handle_response (r\<lparr>status_code := 401\<rparr>) = Inl AionAuthenticationError"
  "handle_response (r\<lparr>status_code := 403\<rparr>) = Inl AionAuthorizationError"
  "handle_response (r\<lparr>status_code := 404\<rparr>) = Inl AionNotFoundError"
  "handle_response (r\<lparr>status_code := 429\<rparr>) = Inl (AionRateLimitError (retry_after_hint r))"
  "is_retryable AionAuthenticationError = Some False"
  "is_retryable AionAuthorizationError = Some False"
  "is_retryable AionNotFoundError = Some False"
  "is_retryable (AionRateLimitError h) = Some True"
  "is_retryable (AionAPIError n) = Some (500 \<le> n \<and> n < 600 \<or> n = 429)"
  by (simp_all add: handle_response_def is_success_def is_server_error_def)

lemma classification_other_status:
  assumes "\<not> is_success r" and "status_code r \<notin> {400, 401, 403, 404, 429}"
  shows "handle_response r =
           (case json_body r of
              None \<Rightarrow> Inl UnboundLocalError
            | Some d \<Rightarrow> Inl (AionAPIError (status_code r)))"
  using assms by (simp add: handle_response_def)

text \<open>
  C1. A response that classifies to \<open>AionNotFoundError\<close> is not raised to the caller on the
  attempt that produced it: with \<open>max_retries = 3\<close> and a transport that answers 404 every time,
  the request sleeps 1, 2 and 4 seconds, makes all four attempts, and raises a plain
  \<open>AionError\<close> that wraps the classified error.
\<close>

theorem request_retries_classified_error:
  "request 3 (\<lambda>k. Responds not_found_response)
     = (Inl (AionError AionNotFoundError), [1, 2, 4])"
  unfolding request_def attempts_of_three
  by (simp add: attempt_once_def handle_response_def is_success_def not_found_response_def)

text \<open>
  C2. With \<open>max_retries = 3\<close>: when the transport times out on the first three attempts and the
  fourth attempt yields a payload, the request returns that payload; when all four attempts
  time out, it raises \<open>AionTimeoutError\<close>. In both runs the delays slept before the retries are
  1, 2 and 4 seconds, that is \<open>2 ^ (k - 1)\<close> before retry number \<open>k\<close>.
\<close>

theorem request_timeout_backoff:
  "(send 0 = Raises TimeoutException \<and> send 1 = Raises TimeoutException \<and>
    send 2 = Raises TimeoutException \<and> send 3 = Responds r \<and> handle_response r = Inr v
      \<longrightarrow> request 3 send = (Inr v, [2 ^ 0, 2 ^ 1, 2 ^ 2])) \<and>
   ((\<forall>k<4. send k = Raises TimeoutException)
      \<longrightarrow> request 3 send = (Inl AionTimeoutError, [2 ^ 0, 2 ^ 1, 2 ^ 2]))"
  unfolding request_def attempts_of_three by (simp add: attempt_once_def)

theorem request_timeout_backoff_witness:
  "request 3 (timeouts_then 3 raw_response) = (Inr (JObject [(''x'', JInt 1)]), [1, 2, 4]) \<and>
   request 3 (timeouts_then 4 raw_response) = (Inl AionTimeoutError, [1, 2, 4])"
proof -
  have ok: "handle_response raw_response = Inr (JObject [(''x'', JInt 1)])"
    by (simp add: handle_response_def is_success_def raw_response_def)
  have three: "timeouts_then 3 raw_response 0 = Raises TimeoutException \<and>
      timeouts_then 3 raw_response 1 = Raises TimeoutException \<and>
      timeouts_then 3 raw_response 2 = Raises TimeoutException \<and>
      timeouts_then 3 raw_response 3 = Responds raw_response \<and>
      handle_response raw_response = Inr (JObject [(''x'', JInt 1)])"
    using ok by (simp add: timeouts_then_def)
  have four: "\<forall>k<4. timeouts_then 4 raw_response k = Raises TimeoutException"
    by (simp add: timeouts_then_def)
  from request_timeout_backoff [of "timeouts_then 3 raw_response" raw_response
      "JObject [(''x'', JInt 1)]"] three
  have a: "request 3 (timeouts_then 3 raw_response) = (Inr (JObject [(''x'', JInt 1)]), [1, 2, 4])"
    by simp
  from request_timeout_backoff [of "timeouts_then 4 raw_response" raw_response
      "JObject [(''x'', JInt 1)]"] four
  have b: "request 3 (timeouts_then 4 raw_response) = (Inl AionTimeoutError, [1, 2, 4])"
    by simp
  from a b show ?thesis by simp
qed

text \<open>
  C3. A 400 response is not classified as \<open>AionValidationError\<close>: whatever else the response
  holds, the handler ends in \<open>TypeError\<close>, raised by the call of the \<open>AionValidationError\<close>
  constructor with a keyword argument it does not accept.
\<close>

theorem handle_response_400_raises_type_error:
  "handle_response (r\<lparr>status_code := 400\<rparr>) = Inl TypeError"
  by (simp add: handle_response_def is_success_def)

text \<open>
  C4 fails as stated: a 2xx envelope that holds a \<open>data\<close> key and \<open>success\<close> false does not
  yield the value of \<open>data\<close>; the handler raises \<open>AionAPIError\<close>, and the request ends in an
  error.
\<close>

theorem envelope_success_false_counterexample:
  "is_success (envelope_response False) \<and>
   json_body (envelope_response False)
     = Some (JObject [(''data'', JObject [(''x'', JInt 1)]), (''success'', JBool False)]) \<and>
   handle_response (envelope_response False) = Inl (AionAPIError 200) \<and>
   fst (request 3 (\<lambda>k. Responds (envelope_response False))) = Inl (AionError (AionAPIError 200))"
  unfolding request_def attempts_of_three
  by (simp add: attempt_once_def handle_response_def is_success_def envelope_response_def
      ApiResponse_model_validate_def)

text \<open>
  C4, amended. When the retry loop reaches an attempt whose response is a 2xx (attempt \<open>k\<close> is
  within \<open>max_retries\<close> and every earlier attempt raised), the request returns: the raw text
  when JSON decoding fails; the decoded body unchanged when it is not an object with a \<open>data\<close>
  key; and the value of \<open>data\<close> when the body is an object with a \<open>data\<close> key whose envelope
  validates with \<open>success\<close> true.
\<close>

theorem request_unwraps_success_response:
  assumes "int k \<le> max_retries"
    and "\<forall>j<k. \<exists>e. attempt_once (send j) = Inl e"
    and "send k = Responds r" and "is_success r"
  shows "(json_body r = None \<longrightarrow>
            request max_retries send
              = (Inr (JStr (response_text r)), map (\<lambda>j. 2 ^ j) [0..<k])) \<and>
         (\<forall>d. json_body r = Some d \<and> (\<forall>kvs. d = JObject kvs \<longrightarrow> map_of kvs ''data'' = None) \<longrightarrow>
            request max_retries send = (Inr d, map (\<lambda>j. 2 ^ j) [0..<k])) \<and>
         (\<forall>kvs a v. json_body r = Some (JObject kvs) \<and> map_of kvs ''data'' = Some v \<and>
              ApiResponse_model_validate kvs = Some a \<and> api_success a \<longrightarrow>
            request max_retries send = (Inr v, map (\<lambda>j. 2 ^ j) [0..<k]))"
proof (intro conjI allI impI)
  assume "json_body r = None"
  with assms(3,4) have "attempt_once (send k) = Inr (JStr (response_text r))"
    by (simp add: attempt_once_def handle_response_def)
  with assms(2) show "request max_retries send
      = (Inr (JStr (response_text r)), map (\<lambda>j. 2 ^ j) [0..<k])"
    using assms(1) by (rule request_reaches)
next
  fix d
  assume h: "json_body r = Some d \<and> (\<forall>kvs. d = JObject kvs \<longrightarrow> map_of kvs ''data'' = None)"
  with assms(3,4) have "attempt_once (send k) = Inr d"
    by (cases d) (simp_all add: attempt_once_def handle_response_def)
  with assms(2) show "request max_retries send = (Inr d, map (\<lambda>j. 2 ^ j) [0..<k])"
    using assms(1) by (rule request_reaches)
next
  fix kvs a v
  assume h: "json_body r = Some (JObject kvs) \<and> map_of kvs ''data'' = Some v \<and>
    ApiResponse_model_validate kvs = Some a \<and> api_success a"
  then have "api_data a = v"
    by (auto simp: ApiResponse_model_validate_def split: option.splits)
  with h assms(3,4) have "attempt_once (send k) = Inr v"
    by (simp add: attempt_once_def handle_response_def)
  with assms(2) show "request max_retries send = (Inr v, map (\<lambda>j. 2 ^ j) [0..<k])"
    using assms(1) by (rule request_reaches)
qed

theorem request_unwraps_success_response_witness:
  "request 3 (\<lambda>k. Responds html_response) = (Inr (JStr ''<html>ok</html>''), []) \<and>
   request 3 (\<lambda>k. Responds raw_response) = (Inr (JObject [(''x'', JInt 1)]), []) \<and>
   request 3 (timeouts_then 3 (envelope_response True))
     = (Inr (JObject [(''x'', JInt 1)]), [1, 2, 4])"
proof -
  have v: "ApiResponse_model_validate
             [(''data'', JObject [(''x'', JInt 1)]), (''success'', JBool True)]
           = Some \<lparr>api_data = JObject [(''x'', JInt 1)], api_success = True, api_message = None\<rparr>"
    by (simp add: ApiResponse_model_validate_def)
  have t: "\<forall>j<3. \<exists>e. attempt_once (timeouts_then 3 (envelope_response True) j) = Inl e"
    by (simp add: attempt_once_def timeouts_then_def)
  have l: "map (\<lambda>j. 2 ^ j) [0..<3] = [1, 2, 4 :: nat]"
    by (simp add: upt_rec)
  have a: "request 3 (\<lambda>k. Responds html_response) = (Inr (JStr ''<html>ok</html>''), [])"
    using request_unwraps_success_response [of 0 3 "\<lambda>k. Responds html_response" html_response]
    by (simp add: is_success_def html_response_def)
  have b: "request 3 (\<lambda>k. Responds raw_response) = (Inr (JObject [(''x'', JInt 1)]), [])"
    using request_unwraps_success_response [of 0 3 "\<lambda>k. Responds raw_response" raw_response]
    by (simp add: is_success_def raw_response_def)
  have c: "request 3 (timeouts_then 3 (envelope_response True))
             = (Inr (JObject [(''x'', JInt 1)]), [1, 2, 4])"
    using request_unwraps_success_response
            [of 3 3 "timeouts_then 3 (envelope_response True)" "envelope_response True"] v t l
    by (simp add: is_success_def envelope_response_def timeouts_then_def)
  from a b c show ?thesis by simp
qed

section \<open>The WebSocket client: handler, generators and completion\<close>


lemma message_handler_idle: "handler_task c \<noteq> Running \<Longrightarrow> message_handler c ins = c"
  by (cases ins) simp_all

lemma message_handler_append:
  "message_handler c (xs @ ys) = message_handler (message_handler c xs) ys"
proof (induction xs arbitrary: c)
  case Nil
  show ?case by simp
next
  case (Cons m ms)
  show ?case
  proof (cases "handler_task c = Running")
    case False
    then show ?thesis by (simp add: message_handler_idle)
  next
    case True
    then show ?thesis
      by (cases m) (simp_all add: Cons.IH message_handler_idle split: option.splits)
  qed
qed

lemma message_handler_subscriptions: "subscriptions (message_handler c ins) = subscriptions c"
  by (induction c ins rule: message_handler.induct)
     (simp_all split: inbound.splits option.splits)

lemma message_handler_consistent:
  "handler_implies_running c \<Longrightarrow> handler_implies_running (message_handler c ins)"
  by (induction c ins rule: message_handler.induct)
     (simp_all add: handler_implies_running_def split: inbound.splits option.splits)

lemma message_handler_queue_head:
  "message_handler (c\<lparr>event_queue := e # event_queue c\<rparr>) ins
     = (message_handler c ins)\<lparr>event_queue := e # event_queue (message_handler c ins)\<rparr>"
  by (induction c ins rule: message_handler.induct)
     (simp_all split: inbound.splits option.splits)


lemma delivered_idle: "handler_task c \<noteq> Running \<Longrightarrow> delivered c ticks = event_queue c"
  by (simp add: delivered_def message_handler_idle)

lemma delivered_tick: "delivered c (t # rest) = delivered (message_handler c t) rest"
  by (simp add: delivered_def message_handler_append)

lemma dequeue_restore:
  "event_queue c = e # q \<Longrightarrow>
     (c\<lparr>event_queue := q\<rparr>)\<lparr>event_queue := e # event_queue (c\<lparr>event_queue := q\<rparr>)\<rparr> = c"
  by simp

lemma delivered_head:
  assumes "event_queue c = e # q"
  shows "delivered c ticks = e # delivered (c\<lparr>event_queue := q\<rparr>) ticks"
proof -
  let ?d = "c\<lparr>event_queue := q\<rparr>"
  have "delivered (?d\<lparr>event_queue := e # event_queue ?d\<rparr>) ticks = e # delivered ?d ticks"
    unfolding delivered_def by (subst message_handler_queue_head) simp
  with dequeue_restore [OF assms] show ?thesis by simp
qed

lemma running_after_dequeue:
  assumes "event_queue c = e # q"
  shows "running (message_handler (c\<lparr>event_queue := q\<rparr>) ins) = running (message_handler c ins)"
proof -
  let ?d = "c\<lparr>event_queue := q\<rparr>"
  have "running (message_handler (?d\<lparr>event_queue := e # event_queue ?d\<rparr>) ins)
          = running (message_handler ?d ins)"
    by (subst message_handler_queue_head) simp
  with dequeue_restore [OF assms] show ?thesis by simp
qed

lemma consistent_dequeue:
  "handler_implies_running c \<Longrightarrow> handler_implies_running (c\<lparr>event_queue := q\<rparr>)"
  by (simp add: handler_implies_running_def)

lemma events_yields_delivered:
  "handler_implies_running c \<Longrightarrow> map fst (fst (events c ticks)) = delivered c ticks"
proof (induction c ticks rule: events.induct)
  case (1 c ticks)
  show ?case
  proof (cases "running c \<or> event_queue c \<noteq> []")
    case False
    with "1.prems" have "handler_task c \<noteq> Running"
      by (auto simp: handler_implies_running_def)
    with False show ?thesis
      by (simp add: events.simps [of c ticks] delivered_idle)
  next
    case True
    show ?thesis
    proof (cases ticks)
      case Nil
      show ?thesis
      proof (cases "event_queue c")
        case Nil
        with True \<open>ticks = []\<close> show ?thesis
          by (simp add: events.simps [of c "[]"] delivered_def)
      next
        case (Cons e q)
        from "1.IH"(1) [OF True \<open>ticks = []\<close> Cons consistent_dequeue [OF "1.prems"]]
        have "map fst (fst (events (c\<lparr>event_queue := q\<rparr>) [])) = delivered (c\<lparr>event_queue := q\<rparr>) []" .
        with True \<open>ticks = []\<close> Cons show ?thesis
          by (simp add: events.simps [of c "[]"] delivered_head [OF Cons] case_prod_beta)
      qed
    next
      case (Cons t rest)
      let ?c1 = "message_handler c t"
      have inv1: "handler_implies_running ?c1"
        using "1.prems" by (rule message_handler_consistent)
      show ?thesis
      proof (cases "event_queue ?c1")
        case Nil
        from "1.IH"(2) [OF True Cons Nil inv1]
        have "map fst (fst (events ?c1 rest)) = delivered ?c1 rest" .
        with True Cons Nil show ?thesis
          by (simp add: events.simps [of c "t # rest"] delivered_tick)
      next
        case (Cons e q)
        from "1.IH"(3) [OF True \<open>ticks = t # rest\<close> Cons consistent_dequeue [OF inv1]]
        have "map fst (fst (events (?c1\<lparr>event_queue := q\<rparr>) rest))
                = delivered (?c1\<lparr>event_queue := q\<rparr>) rest" .
        with True \<open>ticks = t # rest\<close> Cons show ?thesis
          by (simp add: events.simps [of c "t # rest"] delivered_tick delivered_head [OF Cons]
              case_prod_beta)
      qed
    qed
  qed
qed


lemma find_filter_first:
  assumes "\<forall>y \<in> set pre. \<not> (Q y \<and> P y)" and "Q x" and "P x"
  shows "find P (filter Q (pre @ x # post)) = Some x"
  using assms by (induction pre) auto

lemma find_filter_none:
  assumes "\<forall>y \<in> set ys. \<not> (Q y \<and> P y)"
  shows "find P (filter Q ys) = None"
  using assms by (induction ys) auto

lemma subscribe_again:
  assumes "websocket c \<noteq> None" and "sid \<in> subscriptions c"
  shows "subscribe dial c sid = (None, c)"
  using assms by (auto simp: subscribe_def)

lemma events_split:
  "handler_implies_running c \<Longrightarrow> fst (events c ticks) = pre @ (e, c', rest') # post
     \<Longrightarrow> delivered c ticks = map fst pre @ e # delivered c' rest'"
proof (induction c ticks arbitrary: pre rule: events.induct)
  case (1 c ticks)
  note inv = "1.prems"(1) and tr = "1.prems"(2)
  show ?case
  proof (cases "running c \<or> event_queue c \<noteq> []")
    case False
    with tr show ?thesis by (simp add: events.simps [of c ticks])
  next
    case True
    show ?thesis
    proof (cases ticks)
      case Nil
      show ?thesis
      proof (cases "event_queue c")
        case Nil
        with True \<open>ticks = []\<close> tr show ?thesis
          by (simp add: events.simps [of c "[]"])
      next
        case (Cons x q)
        let ?d = "c\<lparr>event_queue := q\<rparr>"
        from True \<open>ticks = []\<close> Cons tr
        have tr': "(x, ?d, []) # fst (events ?d []) = pre @ (e, c', rest') # post"
          by (simp add: events.simps [of c "[]"] case_prod_beta)
        have hd: "delivered c ticks = x # delivered ?d []"
          using delivered_head [OF Cons] \<open>ticks = []\<close> by simp
        show ?thesis
        proof (cases pre)
          case Nil
          with tr' hd show ?thesis by simp
        next
          case (Cons p pre')
          with tr' have "p = (x, ?d, [])" and "fst (events ?d []) = pre' @ (e, c', rest') # post"
            by simp_all
          with "1.IH"(1) [OF True \<open>ticks = []\<close> \<open>event_queue c = x # q\<close>
              consistent_dequeue [OF inv], of pre'] hd Cons
          show ?thesis by simp
        qed
      qed
    next
      case (Cons t rest)
      let ?c1 = "message_handler c t"
      have inv1: "handler_implies_running ?c1"
        using inv by (rule message_handler_consistent)
      show ?thesis
      proof (cases "event_queue ?c1")
        case Nil
        with True Cons tr have "fst (events ?c1 rest) = pre @ (e, c', rest') # post"
          by (simp add: events.simps [of c "t # rest"])
        from "1.IH"(2) [OF True Cons Nil inv1 this] Cons show ?thesis
          by (simp add: delivered_tick)
      next
        case (Cons x q)
        let ?d = "?c1\<lparr>event_queue := q\<rparr>"
        from True \<open>ticks = t # rest\<close> Cons tr
        have tr': "(x, ?d, rest) # fst (events ?d rest) = pre @ (e, c', rest') # post"
          by (simp add: events.simps [of c "t # rest"] case_prod_beta)
        have hd: "delivered c ticks = x # delivered ?d rest"
          using delivered_head [OF Cons] \<open>ticks = t # rest\<close> by (simp add: delivered_tick)
        show ?thesis
        proof (cases pre)
          case Nil
          with tr' hd show ?thesis by simp
        next
          case (Cons p pre')
          with tr' have "p = (x, ?d, rest)"
            and "fst (events ?d rest) = pre' @ (e, c', rest') # post"
            by simp_all
          with "1.IH"(3) [OF True \<open>ticks = t # rest\<close> \<open>event_queue ?c1 = x # q\<close>
              consistent_dequeue [OF inv1], of pre'] hd Cons
          show ?thesis by simp
        qed
      qed
    qed
  qed
qed

lemma events_ends:
  "\<not> running (message_handler c (concat ticks)) \<Longrightarrow> snd (events c ticks) \<noteq> Blocked"
proof (induction c ticks rule: events.induct)
  case (1 c ticks)
  show ?case
  proof (cases "running c \<or> event_queue c \<noteq> []")
    case False
    then show ?thesis by (simp add: events.simps [of c ticks])
  next
    case True
    show ?thesis
    proof (cases ticks)
      case Nil
      with "1.prems" have nr: "\<not> running c" by simp
      with True obtain x q where q: "event_queue c = x # q"
        by (cases "event_queue c") auto
      from nr have "\<not> running (message_handler (c\<lparr>event_queue := q\<rparr>) (concat []))" by simp
      from "1.IH"(1) [OF True Nil q this] True Nil q show ?thesis
        by (simp add: events.simps [of c "[]"] case_prod_beta)
    next
      case (Cons t rest)
      let ?c1 = "message_handler c t"
      from "1.prems" Cons have nr: "\<not> running (message_handler ?c1 (concat rest))"
        by (simp add: message_handler_append)
      show ?thesis
      proof (cases "event_queue ?c1")
        case Nil
        from "1.IH"(2) [OF True Cons Nil nr] True Cons Nil show ?thesis
          by (simp add: events.simps [of c "t # rest"])
      next
        case (Cons x q)
        from nr have "\<not> running (message_handler (?c1\<lparr>event_queue := q\<rparr>) (concat rest))"
          by (simp add: running_after_dequeue [OF Cons])
        from "1.IH"(3) [OF True \<open>ticks = t # rest\<close> Cons this] True \<open>ticks = t # rest\<close> Cons
        show ?thesis
          by (simp add: events.simps [of c "t # rest"] case_prod_beta)
      qed
    qed
  qed
qed


lemma wait_for_completion_returns_first:
  assumes sub: "subscribe dial c sid = (None, c1)"
    and inv: "handler_implies_running c1"
    and del: "delivered c1 ticks = earlier @ e # later"
    and pre: "\<forall>x \<in> set earlier. \<not> terminal_for sid x"
    and fin: "terminal_for sid e"
  shows "\<exists>c' rest. wait_for_completion dial c sid ticks = Some (Inr e, c', rest) \<and>
           delivered c' rest = later"
proof -
  let ?Q = "\<lambda>y :: ProgressEvent \<times> ws_client \<times> inbound list list. session_id (fst y) = sid"
  let ?P = "\<lambda>y :: ProgressEvent \<times> ws_client \<times> inbound list list.
              event_type (fst y) \<in> set completion_types"
  from events_yields_delivered [OF inv, of ticks] del
  have "map fst (fst (events c1 ticks)) = earlier @ e # later" by simp
  then obtain ys y zs where ys: "fst (events c1 ticks) = ys @ y # zs"
    and m: "map fst ys = earlier" and y: "fst y = e"
    by (auto simp: map_eq_append_conv map_eq_Cons_conv)
  obtain c' rest where y': "y = (e, c', rest)" using y by (cases y) auto
  have "fst z \<in> set earlier" if "z \<in> set ys" for z
    using that m by force
  with pre have no: "\<forall>z \<in> set ys. \<not> (?Q z \<and> ?P z)"
    unfolding terminal_for_def by blast
  from fin y have "?Q y" and "?P y" by (simp_all add: terminal_for_def)
  with no have "find ?P (filter ?Q (ys @ y # zs)) = Some y"
    by (intro find_filter_first) auto
  with sub ys y' have "wait_for_completion dial c sid ticks = Some (Inr e, c', rest)"
    by (simp add: wait_for_completion_def session_events_def case_prod_beta)
  moreover from events_split [OF inv] ys y' del m have "delivered c' rest = later"
    by fastforce
  ultimately show ?thesis by blast
qed

lemma wait_for_completion_raises_when_ended:
  assumes sub: "subscribe dial c sid = (None, c1)"
    and inv: "handler_implies_running c1"
    and cl: "\<not> running (message_handler c1 (concat ticks))"
    and no: "\<forall>x \<in> set (delivered c1 ticks). \<not> terminal_for sid x"
  shows "\<exists>c' rest. wait_for_completion dial c sid ticks
           = Some (Inl (AionWebSocketError ''Session completion event not received''), c', rest)"
proof -
  let ?Q = "\<lambda>y :: ProgressEvent \<times> ws_client \<times> inbound list list. session_id (fst y) = sid"
  let ?P = "\<lambda>y :: ProgressEvent \<times> ws_client \<times> inbound list list.
              event_type (fst y) \<in> set completion_types"
  from events_yields_delivered [OF inv, of ticks]
  have "fst ` set (fst (events c1 ticks)) = set (delivered c1 ticks)"
    by (metis set_map)
  with no have "\<forall>z \<in> set (fst (events c1 ticks)). \<not> (?Q z \<and> ?P z)"
    by (auto simp: terminal_for_def)
  then have f: "find ?P (filter ?Q (fst (events c1 ticks))) = None"
    by (rule find_filter_none)
  from events_ends [OF cl] obtain c' rest where "snd (events c1 ticks) = Ended c' rest"
    by (cases "snd (events c1 ticks)") auto
  with sub f have "wait_for_completion dial c sid ticks
      = Some (Inl (AionWebSocketError ''Session completion event not received''), c', rest)"
    by (simp add: wait_for_completion_def session_events_def case_prod_beta)
  then show ?thesis by blast
qed

text \<open>
  C5. Take a call of \<open>wait_for_completion\<close> whose subscription step succeeds and leaves the
  client \<open>c1\<close>. When the events delivered from then on hold an event that is terminal for the
  session, the call returns the first such event, and the events delivered after it are
  still to be taken: they are what the returned client and the remaining ticks deliver.
  When the \<open>_running\<close> flag is cleared in the end and no delivered event is terminal for the
  session, the call does return, and what it raises is \<open>AionWebSocketError\<close> with the message
  \<open>Session completion event not received\<close>.
\<close>

theorem wait_for_completion_terminal_or_error:
  "(subscribe dial c sid = (None, c1) \<and> handler_implies_running c1 \<and>
    delivered c1 ticks = earlier @ e # later \<and>
    (\<forall>x \<in> set earlier. \<not> terminal_for sid x) \<and> terminal_for sid e
      \<longrightarrow> (\<exists>c' rest. wait_for_completion dial c sid ticks = Some (Inr e, c', rest) \<and>
             delivered c' rest = later)) \<and>
   (subscribe dial c sid = (None, c1) \<and> handler_implies_running c1 \<and>
    \<not> running (message_handler c1 (concat ticks)) \<and>
    (\<forall>x \<in> set (delivered c1 ticks). \<not> terminal_for sid x)
      \<longrightarrow> (\<exists>c' rest. wait_for_completion dial c sid ticks
             = Some (Inl (AionWebSocketError ''Session completion event not received''),
                     c', rest)))"
  using wait_for_completion_returns_first wait_for_completion_raises_when_ended by blast

lemma sample_subscribed: "subscribe dial_ok (open_client {1}) 1 = (None, open_client {1})"
  by (simp add: subscribe_def open_client_def)

lemma sample_consistent: "handler_implies_running (open_client {1})"
  by (simp add: handler_implies_running_def open_client_def)

lemma sample_delivered:
  "delivered (open_client {1}) completion_ticks
     = [progress_event 1 TASK_PROGRESS, progress_event 2 SESSION_COMPLETED]
       @ progress_event 1 SESSION_COMPLETED # [progress_event 1 LOG_MESSAGE]"
  by (simp add: delivered_def completion_ticks_def open_client_def)

lemma sample_closing:
  "\<not> running (message_handler (open_client {1}) (concat closing_ticks))"
  "delivered (open_client {1}) closing_ticks = [progress_event 1 TASK_PROGRESS]"
  by (simp_all add: delivered_def closing_ticks_def open_client_def)

theorem wait_for_completion_terminal_or_error_witness:
  "(\<exists>c' rest. wait_for_completion dial_ok (open_client {1}) 1 completion_ticks
       = Some (Inr (progress_event 1 SESSION_COMPLETED), c', rest) \<and>
     delivered c' rest = [progress_event 1 LOG_MESSAGE]) \<and>
   (\<exists>c' rest. wait_for_completion dial_ok (open_client {1}) 1 closing_ticks
       = Some (Inl (AionWebSocketError ''Session completion event not received''), c', rest))"
proof -
  have t: "terminal_for 1 (progress_event 1 SESSION_COMPLETED)"
    by (simp add: terminal_for_def progress_event_def completion_types_def)
  have n: "\<forall>x \<in> set [progress_event 1 TASK_PROGRESS, progress_event 2 SESSION_COMPLETED].
             \<not> terminal_for 1 x"
    by (simp add: terminal_for_def progress_event_def completion_types_def)
  have n': "\<forall>x \<in> set (delivered (open_client {1}) closing_ticks). \<not> terminal_for 1 x"
    by (simp add: sample_closing terminal_for_def progress_event_def completion_types_def)
  note main = wait_for_completion_terminal_or_error
  from main [of dial_ok "open_client {1}" 1 "open_client {1}" completion_ticks
      "[progress_event 1 TASK_PROGRESS, progress_event 2 SESSION_COMPLETED]"
      "progress_event 1 SESSION_COMPLETED" "[progress_event 1 LOG_MESSAGE]"]
    sample_subscribed sample_consistent sample_delivered t n
  have a: "\<exists>c' rest. wait_for_completion dial_ok (open_client {1}) 1 completion_ticks
       = Some (Inr (progress_event 1 SESSION_COMPLETED), c', rest) \<and>
     delivered c' rest = [progress_event 1 LOG_MESSAGE]"
    by blast
  from main [of dial_ok "open_client {1}" 1 "open_client {1}" closing_ticks]
    sample_subscribed sample_consistent sample_closing(1) n'
  have b: "\<exists>c' rest. wait_for_completion dial_ok (open_client {1}) 1 closing_ticks
       = Some (Inl (AionWebSocketError ''Session completion event not received''), c', rest)"
    by blast
  from a b show ?thesis by blast
qed

text \<open>
  A connection that closes normally ends the handler without clearing \<open>_running\<close>; with an
  empty queue the generator then waits for ever, and so does \<open>wait_for_completion\<close>.
\<close>

lemma blocked_after_normal_close:
  "wait_for_completion dial_ok (open_client {1}) 1 [[CloseOK]] = None"
  unfolding wait_for_completion_def session_events_def sample_subscribed
  by (simp add: events.simps open_client_def)

section \<open>The WebSocket client: subscriptions and teardown\<close>

text \<open>
  C6. On an open connection, \<open>subscribe\<close> for a session id that is already in the subscription
  set returns without writing a frame and leaves the client as it is. For a session id that
  is not in the set, the first call writes one subscribe frame and adds the id, and a second
  call changes nothing more. The subscriptions are a set, so an id is in it at most once.
\<close>

theorem subscribe_idempotent:
  "(websocket c = Some Open \<and> sid \<in> subscriptions c
      \<longrightarrow> subscribe dial c sid = (None, c)) \<and>
   (websocket c = Some Open \<and> sid \<notin> subscriptions c
      \<longrightarrow> subscribe dial c sid
            = (None, c\<lparr>subscriptions := insert sid (subscriptions c),
                        sent := sent c @ [Subscribe sid]\<rparr>) \<and>
          subscribe dial (snd (subscribe dial c sid)) sid = (None, snd (subscribe dial c sid)))"
  by (simp add: subscribe_def ws_send_def)

theorem subscribe_idempotent_witness:
  "subscribe dial_ok (open_client {1}) 1 = (None, open_client {1}) \<and>
   subscribe dial_ok (open_client {}) 1
     = (None, (open_client {})\<lparr>subscriptions := {1}, sent := [Subscribe 1]\<rparr>) \<and>
   sent (snd (subscribe dial_ok (snd (subscribe dial_ok (open_client {}) 1)) 1)) = [Subscribe 1]"
proof -
  have a: "websocket (open_client {1}) = Some Open \<and> (1 :: uuid) \<in> subscriptions (open_client {1})"
    by (simp add: open_client_def)
  have b: "websocket (open_client {}) = Some Open \<and> (1 :: uuid) \<notin> subscriptions (open_client {})"
    by (simp add: open_client_def)
  from subscribe_idempotent [of "open_client {1}" 1 dial_ok] a
  have 1: "subscribe dial_ok (open_client {1}) 1 = (None, open_client {1})" by blast
  from subscribe_idempotent [of "open_client {}" 1 dial_ok] b
  have 2: "subscribe dial_ok (open_client {}) 1
        = (None, (open_client {})\<lparr>subscriptions := insert 1 (subscriptions (open_client {})),
                     sent := sent (open_client {}) @ [Subscribe 1]\<rparr>) \<and>
      subscribe dial_ok (snd (subscribe dial_ok (open_client {}) 1)) 1
        = (None, snd (subscribe dial_ok (open_client {}) 1))" by blast
  from 2 have 3: "subscribe dial_ok (open_client {}) 1
        = (None, (open_client {})\<lparr>subscriptions := {1}, sent := [Subscribe 1]\<rparr>)"
    by (simp add: open_client_def)
  from 2 have "snd (subscribe dial_ok (snd (subscribe dial_ok (open_client {}) 1)) 1)
        = snd (subscribe dial_ok (open_client {}) 1)"
    by (metis snd_conv)
  with 3 have 4: "sent (snd (subscribe dial_ok (snd (subscribe dial_ok (open_client {}) 1)) 1))
        = [Subscribe 1]"
    by simp
  from 1 3 4 show ?thesis by blast
qed

text \<open>
  C7 fails as stated: an event whose session id is in no subscription is not discarded. The
  handler puts it on the queue, and the \<open>events\<close> generator yields it.
\<close>

theorem event_without_subscription_counterexample:
  "session_id (progress_event 2 TASK_PROGRESS) \<notin> subscriptions (open_client {1}) \<and>
   event_queue (message_handler (open_client {1}) [TextFrame (Some (progress_event 2 TASK_PROGRESS))])
     = [progress_event 2 TASK_PROGRESS] \<and>
   map fst (fst (events (open_client {1}) [[TextFrame (Some (progress_event 2 TASK_PROGRESS))]]))
     = [progress_event 2 TASK_PROGRESS]"
  by (simp add: events.simps open_client_def progress_event_def)

text \<open>
  C7, amended. A running handler appends the event of every valid frame to the one queue of
  the client, whatever its session id and whatever the subscription set holds; \<open>events\<close>
  yields every delivered event in the order of delivery; and \<open>session_events\<close>, once its
  subscription step has succeeded, yields of the delivered events exactly those with the
  session id asked for, in that order.
\<close>

theorem handler_queues_every_event:
  "(handler_task c = Running
      \<longrightarrow> message_handler c [TextFrame (Some e)] = c\<lparr>event_queue := event_queue c @ [e]\<rparr>) \<and>
   (handler_implies_running c \<longrightarrow> map fst (fst (events c ticks)) = delivered c ticks) \<and>
   (subscribe dial c sid = (None, c1) \<and> handler_implies_running c1
      \<longrightarrow> (\<exists>ys fin. session_events dial c sid ticks = Inr (ys, fin) \<and>
             map fst ys = filter (\<lambda>x. session_id x = sid) (delivered c1 ticks)))"
proof (intro conjI impI)
  assume "handler_task c = Running"
  then show "message_handler c [TextFrame (Some e)] = c\<lparr>event_queue := event_queue c @ [e]\<rparr>"
    by simp
next
  assume "handler_implies_running c"
  then show "map fst (fst (events c ticks)) = delivered c ticks"
    by (rule events_yields_delivered)
next
  assume h: "subscribe dial c sid = (None, c1) \<and> handler_implies_running c1"
  let ?ys = "filter (\<lambda>y. session_id (fst y) = sid) (fst (events c1 ticks))"
  from h have s: "session_events dial c sid ticks = Inr (?ys, snd (events c1 ticks))"
    by (simp add: session_events_def case_prod_beta)
  have "map fst ?ys = filter (\<lambda>x. session_id x = sid) (map fst (fst (events c1 ticks)))"
    by (simp add: filter_map comp_def)
  with h have "map fst ?ys = filter (\<lambda>x. session_id x = sid) (delivered c1 ticks)"
    by (simp add: events_yields_delivered)
  with s show "\<exists>ys fin. session_events dial c sid ticks = Inr (ys, fin) \<and>
      map fst ys = filter (\<lambda>x. session_id x = sid) (delivered c1 ticks)"
    by blast
qed

theorem handler_queues_every_event_witness:
  "message_handler (open_client {1}) [TextFrame (Some (progress_event 2 TASK_PROGRESS))]
     = (open_client {1})\<lparr>event_queue := [progress_event 2 TASK_PROGRESS]\<rparr> \<and>
   map fst (fst (events (open_client {1}) completion_ticks))
     = [progress_event 1 TASK_PROGRESS, progress_event 2 SESSION_COMPLETED,
        progress_event 1 SESSION_COMPLETED, progress_event 1 LOG_MESSAGE] \<and>
   (\<exists>ys fin. session_events dial_ok (open_client {1}) 1 completion_ticks = Inr (ys, fin) \<and>
      map fst ys = [progress_event 1 TASK_PROGRESS, progress_event 1 SESSION_COMPLETED,
                    progress_event 1 LOG_MESSAGE])"
proof -
  note main = handler_queues_every_event [of "open_client {1}" "progress_event 2 TASK_PROGRESS"
      completion_ticks dial_ok 1 "open_client {1}"]
  have r: "handler_task (open_client {1}) = Running" by (simp add: open_client_def)
  have q: "event_queue (open_client {1}) = []" by (simp add: open_client_def)
  from main r q
  have a: "message_handler (open_client {1}) [TextFrame (Some (progress_event 2 TASK_PROGRESS))]
     = (open_client {1})\<lparr>event_queue := [progress_event 2 TASK_PROGRESS]\<rparr>"
    by simp
  from main sample_consistent sample_delivered
  have b: "map fst (fst (events (open_client {1}) completion_ticks))
     = [progress_event 1 TASK_PROGRESS, progress_event 2 SESSION_COMPLETED,
        progress_event 1 SESSION_COMPLETED, progress_event 1 LOG_MESSAGE]"
    by simp
  have f: "filter (\<lambda>x. session_id x = 1) (delivered (open_client {1}) completion_ticks)
     = [progress_event 1 TASK_PROGRESS, progress_event 1 SESSION_COMPLETED,
        progress_event 1 LOG_MESSAGE]"
    by (simp add: sample_delivered progress_event_def)
  from main sample_subscribed sample_consistent
  have "\<exists>ys fin. session_events dial_ok (open_client {1}) 1 completion_ticks = Inr (ys, fin) \<and>
      map fst ys = filter (\<lambda>x. session_id x = 1) (delivered (open_client {1}) completion_ticks)"
    by blast
  with f have c: "\<exists>ys fin. session_events dial_ok (open_client {1}) 1 completion_ticks
        = Inr (ys, fin) \<and>
      map fst ys = [progress_event 1 TASK_PROGRESS, progress_event 1 SESSION_COMPLETED,
                    progress_event 1 LOG_MESSAGE]"
    by simp
  from a b c show ?thesis by blast
qed

text \<open>
  C8 fails as stated: \<open>unsubscribe\<close> of the only subscription writes the unsubscribe frame and
  empties the set, and the socket is still open and \<open>_running\<close> still set afterwards.
\<close>

theorem unsubscribe_last_keeps_connection_counterexample:
  "subscriptions (open_client {1}) = {1} \<and>
   unsubscribe (open_client {1}) 1
     = (None, (open_client {1})\<lparr>subscriptions := {}, sent := [Unsubscribe 1]\<rparr>) \<and>
   websocket (snd (unsubscribe (open_client {1}) 1)) = Some Open \<and>
   running (snd (unsubscribe (open_client {1}) 1))"
  by (simp add: unsubscribe_def ws_send_def open_client_def)

text \<open>
  C8, amended. \<open>unsubscribe\<close> never tears the connection down: in every state, also when it
  removes the last subscription, the socket, the \<open>_running\<close> flag and the handler task are
  after the call what they were before it. \<open>disconnect\<close> is what closes the connection: after
  it the socket is not open and \<open>_running\<close> is cleared.
\<close>

theorem unsubscribe_keeps_connection:
  "websocket (snd (unsubscribe c sid)) = websocket c \<and>
   running (snd (unsubscribe c sid)) = running c \<and>
   handler_task (snd (unsubscribe c sid)) = handler_task c \<and>
   websocket (disconnect c) \<noteq> Some Open \<and> \<not> running (disconnect c)"
  by (simp add: unsubscribe_def ws_send_def disconnect_def Let_def
      split: option.splits socket.splits)

text \<open>
  C9. When the inbound loop ends with \<open>ConnectionClosed\<close> or with another exception, the
  handler only clears \<open>_running\<close>: a client subscribed to session 1 is still subscribed to it
  afterwards. \<open>disconnect\<close> does empty the set. With the stale entry left in the set, a
  \<open>subscribe\<close> for the session after a new \<open>connect\<close> writes no frame to the new socket.
\<close>

theorem handler_failure_keeps_subscriptions:
  "message_handler (open_client {1}) [CloseError]
     = (open_client {1})\<lparr>websocket := Some Closed, running := False, handler_task := Finished\<rparr> \<and>
   subscriptions (message_handler (open_client {1}) [CloseError]) = {1} \<and>
   subscriptions (message_handler (open_client {1}) [LoopFailure ''boom'']) = {1} \<and>
   subscriptions (disconnect (open_client {1})) = {} \<and>
   subscribe dial_ok (snd (connect dial_ok (message_handler (open_client {1}) [CloseError]))) 1
     = (None, open_client {1})"
  by (simp add: open_client_def disconnect_def connect_def build_ws_url_def dial_ok_def
      subscribe_def)

section \<open>The SSE listener: completion\<close>

lemma find_map_filter_none:
  assumes "\<forall>x \<in> set xs. \<forall>y. f x = Some y \<longrightarrow> \<not> P y"
  shows "find P (List.map_filter f xs) = None"
  using assms by (induction xs) (auto split: option.splits)

lemma sse_wait_none:
  assumes "200 \<le> stream_status r \<and> stream_status r \<le> 299"
    and "\<forall>line \<in> set (stream_lines r). \<forall>e.
           take 6 line = ''data: '' \<and> parse (drop 6 line) = Some e
             \<longrightarrow> event_type e \<notin> {SESSION_COMPLETED, SESSION_FAILED}"
  shows "ProgressListener_wait_for_completion parse r = Inr None"
proof -
  let ?f = "\<lambda>line. if take 6 line = ''data: '' then parse (drop 6 line) else None"
  from assms(2) have "\<forall>x \<in> set (stream_lines r). \<forall>y. ?f x = Some y
      \<longrightarrow> \<not> (event_type y \<in> {SESSION_COMPLETED, SESSION_FAILED})"
    by (auto split: if_splits)
  then have "find (\<lambda>e. event_type e \<in> {SESSION_COMPLETED, SESSION_FAILED})
      (List.map_filter ?f (stream_lines r)) = None"
    by (rule find_map_filter_none)
  with assms(1) show ?thesis
    by (simp add: ProgressListener_wait_for_completion_def ProgressListener_events_def
        subscribe_sse_def)
qed

text \<open>
  C10. When the SSE stream opens with a 2xx status and ends without a line that decodes to
  a \<open>SESSION_COMPLETED\<close> or \<open>SESSION_FAILED\<close> event, \<open>ProgressListener.wait_for_completion\<close> raises
  nothing and returns \<open>None\<close>. The WebSocket client, when its event sequence ends without an
  event that is terminal for the session, raises \<open>AionWebSocketError\<close> instead.
\<close>

theorem sse_wait_returns_none:
  "(200 \<le> stream_status r \<and> stream_status r \<le> 299 \<and>
    (\<forall>line \<in> set (stream_lines r). \<forall>e.
       take 6 line = ''data: '' \<and> parse (drop 6 line) = Some e
         \<longrightarrow> event_type e \<notin> {SESSION_COMPLETED, SESSION_FAILED})
    \<longrightarrow> ProgressListener_wait_for_completion parse r = Inr None) \<and>
   (subscribe dial c sid = (None, c1) \<and> handler_implies_running c1 \<and>
    \<not> running (message_handler c1 (concat ticks)) \<and>
    (\<forall>x \<in> set (delivered c1 ticks). \<not> terminal_for sid x)
    \<longrightarrow> (\<exists>c' rest. wait_for_completion dial c sid ticks
           = Some (Inl (AionWebSocketError ''Session completion event not received''),
                   c', rest)))"
  using sse_wait_none wait_for_completion_raises_when_ended by blast

theorem sse_wait_returns_none_witness:
  "ProgressListener_wait_for_completion sample_parse sample_stream = Inr None \<and>
   (\<exists>c' rest. wait_for_completion dial_ok (open_client {1}) 1 closing_ticks
       = Some (Inl (AionWebSocketError ''Session completion event not received''), c', rest))"
proof -
  note main = sse_wait_returns_none [of sample_stream sample_parse dial_ok "open_client {1}" 1
      "open_client {1}" closing_ticks]
  have s: "200 \<le> stream_status sample_stream \<and> stream_status sample_stream \<le> 299 \<and>
   (\<forall>line \<in> set (stream_lines sample_stream). \<forall>e.
      take 6 line = ''data: '' \<and> sample_parse (drop 6 line) = Some e
        \<longrightarrow> event_type e \<notin> {SESSION_COMPLETED, SESSION_FAILED})"
    by (simp add: sample_stream_def sample_parse_def progress_event_def)
  have n: "\<forall>x \<in> set (delivered (open_client {1}) closing_ticks). \<not> terminal_for 1 x"
    by (simp add: sample_closing terminal_for_def progress_event_def completion_types_def)
  from main s have a: "ProgressListener_wait_for_completion sample_parse sample_stream = Inr None"
    by blast
  from main sample_subscribed sample_consistent sample_closing(1) n
  have b: "\<exists>c' rest. wait_for_completion dial_ok (open_client {1}) 1 closing_ticks
       = Some (Inl (AionWebSocketError ''Session completion event not received''), c', rest)"
    by blast
  from a b show ?thesis by blast
qed

end
